theory Spec2Isabelle
  imports Main
begin

section \<open>JSON text, as \<open>JSON.parse\<close> and \<open>JSON.stringify\<close> of the platform treat it\<close>

text \<open>
  The user record is kept in the credential store as JSON text: \<open>login\<close>, \<open>register\<close> and
  \<open>updateProfile\<close> write \<open>JSON.stringify(user)\<close>, and \<open>validateAndSetAuth\<close> reads it back
  with \<open>JSON.parse\<close>, which throws a \<open>SyntaxError\<close> on text that is not JSON. A JSON value
  is a tree; numbers and strings keep their lexemes (a number as it is written, a string as
  the characters between its quotes, escapes undecoded), since the program never computes
  with them. \<open>JNull\<close> is JavaScript's \<open>null\<close>.

  The parser follows the JSON grammar: \<open>lex_int\<close>, \<open>lex_frac\<close> and \<open>lex_exp\<close> read the three
  parts of a number, \<open>lex_string\<close> the body of a string after its opening quote,
  \<open>parse_value\<close>, \<open>parse_elements\<close> and \<open>parse_members\<close> a value, the elements of an array
  after \<open>[\<close> and the members of an object after \<open>{\<close>. Each returns what it read and the
  rest of the text, or \<open>None\<close> where \<open>JSON.parse\<close> throws. The first argument of the three
  mutually recursive functions bounds the depth of their calls; \<open>JSON_parse\<close> starts them
  with one more than the length of the text.
\<close>

datatype json =
    JNull
  | JBool bool
  | JNumber string
  | JString string
  | JArray "json list"
  | JObject "(string \<times> json) list"

definition is_digit :: "char \<Rightarrow> bool" where
  "is_digit c = (c \<in> set ''0123456789'')"

definition is_hex :: "char \<Rightarrow> bool" where
  "is_hex c = (c \<in> set ''0123456789abcdefABCDEF'')"

definition json_ws :: "char \<Rightarrow> bool" where
  "json_ws c = (c \<in> set [CHR 0x20, CHR 0x09, CHR 0x0A, CHR 0x0D])"

definition skip_ws :: "string \<Rightarrow> string" where
  "skip_ws cs = dropWhile json_ws cs"

definition lex_int :: "string \<Rightarrow> (string \<times> string) option" where
  "lex_int cs =
     (case cs of
        [] \<Rightarrow> None
      | c # r \<Rightarrow>
          if c = CHR ''0'' then Some ([c], r)
          else if is_digit c then Some (c # takeWhile is_digit r, dropWhile is_digit r)
          else None)"

definition lex_frac :: "string \<Rightarrow> (string \<times> string) option" where
  "lex_frac cs =
     (case cs of
        [] \<Rightarrow> Some ([], cs)
      | c # r \<Rightarrow>
          if c = CHR ''.'' then
            (if takeWhile is_digit r = [] then None
             else Some (c # takeWhile is_digit r, dropWhile is_digit r))
          else Some ([], cs))"

definition lex_exp :: "string \<Rightarrow> (string \<times> string) option" where
  "lex_exp cs =
     (case cs of
        [] \<Rightarrow> Some ([], cs)
      | c # r \<Rightarrow>
          if c = CHR ''e'' \<or> c = CHR ''E'' then
            (let (sg, r1) =
                   (case r of
                      [] \<Rightarrow> ([], r)
                    | d # r' \<Rightarrow> if d = CHR ''+'' \<or> d = CHR ''-'' then ([d], r') else ([], r))
             in if takeWhile is_digit r1 = [] then None
                else Some (c # sg @ takeWhile is_digit r1, dropWhile is_digit r1))
          else Some ([], cs))"

definition lex_number :: "string \<Rightarrow> (string \<times> string) option" where
  "lex_number cs =
     (let (sg, r0) =
            (case cs of
               [] \<Rightarrow> ([], cs)
             | c # r \<Rightarrow> if c = CHR ''-'' then ([c], r) else ([], cs))
      in case lex_int r0 of
           None \<Rightarrow> None
         | Some (i, r1) \<Rightarrow>
             (case lex_frac r1 of
                None \<Rightarrow> None
              | Some (f, r2) \<Rightarrow>
                  (case lex_exp r2 of
                     None \<Rightarrow> None
                   | Some (e, r3) \<Rightarrow> Some (sg @ i @ f @ e, r3))))"

fun lex_string :: "string \<Rightarrow> (string \<times> string) option" where
  "lex_string [] = None"
| "lex_string (c # r) =
     (if c = CHR 0x22 then Some ([], r)
      else if c = CHR 0x5C then
        (case r of
           [] \<Rightarrow> None
         | e # r' \<Rightarrow>
             if e \<in> set [CHR 0x22, CHR 0x5C, CHR ''/'', CHR ''b'', CHR ''f'', CHR ''n'', CHR ''r'', CHR ''t''] then
               map_option (\<lambda>(s, k). (c # e # s, k)) (lex_string r')
             else if e = CHR ''u'' \<and> 4 \<le> length r' \<and> list_all is_hex (take 4 r') then
               map_option (\<lambda>(s, k). (c # e # take 4 r' @ s, k)) (lex_string (drop 4 r'))
             else None)
      else if (of_char c :: nat) < 0x20 then None
      else map_option (\<lambda>(s, k). (c # s, k)) (lex_string r))"

fun parse_value :: "nat \<Rightarrow> string \<Rightarrow> (json \<times> string) option"
  and parse_elements :: "nat \<Rightarrow> string \<Rightarrow> (json list \<times> string) option"
  and parse_members :: "nat \<Rightarrow> string \<Rightarrow> ((string \<times> json) list \<times> string) option"
where
  "parse_value 0 cs = None"
| "parse_value (Suc n) cs =
     (case cs of
        [] \<Rightarrow> None
      | c # r \<Rightarrow>
          if c = CHR ''{'' then
            (case skip_ws r of
               [] \<Rightarrow> None
             | d # r' \<Rightarrow>
                 if d = CHR ''}'' then Some (JObject [], r')
                 else map_option (\<lambda>(ms, k). (JObject ms, k)) (parse_members n (d # r')))
          else if c = CHR ''['' then
            (case skip_ws r of
               [] \<Rightarrow> None
             | d # r' \<Rightarrow>
                 if d = CHR '']'' then Some (JArray [], r')
                 else map_option (\<lambda>(vs, k). (JArray vs, k)) (parse_elements n (d # r')))
          else if c = CHR 0x22 then map_option (\<lambda>(s, k). (JString s, k)) (lex_string r)
          else if take 4 cs = ''null'' then Some (JNull, drop 4 cs)
          else if take 4 cs = ''true'' then Some (JBool True, drop 4 cs)
          else if take 5 cs = ''false'' then Some (JBool False, drop 5 cs)
          else map_option (\<lambda>(s, k). (JNumber s, k)) (lex_number cs))"
| "parse_elements 0 cs = None"
| "parse_elements (Suc n) cs =
     (case parse_value n cs of
        None \<Rightarrow> None
      | Some (v, r) \<Rightarrow>
          (case skip_ws r of
             [] \<Rightarrow> None
           | d # r' \<Rightarrow>
               if d = CHR '']'' then Some ([v], r')
               else if d = CHR '','' then
                 map_option (\<lambda>(vs, k). (v # vs, k)) (parse_elements n (skip_ws r'))
               else None))"
| "parse_members 0 cs = None"
| "parse_members (Suc n) cs =
     (case cs of
        [] \<Rightarrow> None
      | c # r \<Rightarrow>
          if c = CHR 0x22 then
            (case lex_string r of
               None \<Rightarrow> None
             | Some (key, r1) \<Rightarrow>
                 (case skip_ws r1 of
                    [] \<Rightarrow> None
                  | col # r2 \<Rightarrow>
                      if col = CHR '':'' then
                        (case parse_value n (skip_ws r2) of
                           None \<Rightarrow> None
                         | Some (v, r3) \<Rightarrow>
                             (case skip_ws r3 of
                                [] \<Rightarrow> None
                              | d # r4 \<Rightarrow>
                                  if d = CHR ''}'' then Some ([(key, v)], r4)
                                  else if d = CHR '','' then
                                    map_option (\<lambda>(ms, k). ((key, v) # ms, k))
                                      (parse_members n (skip_ws r4))
                                  else None))
                      else None))
          else None)"

definition JSON_parse :: "string \<Rightarrow> json option" where
  "JSON_parse s =
     (case parse_value (Suc (length s)) (skip_ws s) of
        None \<Rightarrow> None
      | Some (v, r) \<Rightarrow> if skip_ws r = [] then Some v else None)"

fun join :: "string \<Rightarrow> string list \<Rightarrow> string" where
  "join sep [] = []"
| "join sep [x] = x"
| "join sep (x # y # ys) = x @ sep @ join sep (y # ys)"

fun JSON_stringify :: "json \<Rightarrow> string" where
  "JSON_stringify JNull = ''null''"
| "JSON_stringify (JBool b) = (if b then ''true'' else ''false'')"
| "JSON_stringify (JNumber n) = n"
| "JSON_stringify (JString s) = CHR 0x22 # s @ [CHR 0x22]"
| "JSON_stringify (JArray vs) = ''['' @ join '','' (map JSON_stringify vs) @ '']''"
| "JSON_stringify (JObject ms) =
     ''{'' @ join '','' (map (\<lambda>m. CHR 0x22 # fst m @ [CHR 0x22] @ '':'' @ JSON_stringify (snd m)) ms) @ ''}''"

section \<open>JavaScript strings and truthiness\<close>

text \<open>
  A JavaScript string is a \<open>string\<close>, one \<open>char\<close> for each code unit below 256 (the texts
  that this program tests are ASCII). A value that may be \<open>null\<close> or \<open>undefined\<close> is an
  \<open>option\<close>, and \<open>truthy\<close> is the test that \<open>if (x)\<close>, \<open>!x\<close>, \<open>x && y\<close> and \<open>x || y\<close>
  make of it: \<open>null\<close>, \<open>undefined\<close> and the empty string are falsy, every other string is
  truthy. \<open>or_else m d\<close> is \<open>m || d\<close>. \<open>toLowerCase\<close> maps the capital letters of that range
  to their small letters. \<open>str_includes\<close> is \<open>String.prototype.includes\<close>,
  \<open>endsWith\<close> is \<open>String.prototype.endsWith\<close>, \<open>trim\<close> removes the white space of both
  ends, and \<open>toString\<close> writes a number in decimal, as \<open>Date.now().toString()\<close> does.
\<close>

definition truthy :: "string option \<Rightarrow> bool" where
  "truthy v = (case v of None \<Rightarrow> False | Some s \<Rightarrow> s \<noteq> [])"

definition or_else :: "string option \<Rightarrow> string \<Rightarrow> string" where
  "or_else v d = (if truthy v then the v else d)"

definition lower :: "char \<Rightarrow> char" where
  "lower c =
     (let n = (of_char c :: nat)
      in if (65 \<le> n \<and> n \<le> 90) \<or> (192 \<le> n \<and> n \<le> 222 \<and> n \<noteq> 215)
         then char_of (n + 32) else c)"

definition toLowerCase :: "string \<Rightarrow> string" where
  "toLowerCase s = map lower s"

fun starts_with :: "string \<Rightarrow> string \<Rightarrow> bool" where
  "starts_with xs [] = True"
| "starts_with [] (p # ps) = False"
| "starts_with (x # xs) (p # ps) = (x = p \<and> starts_with xs ps)"

fun str_includes :: "string \<Rightarrow> string \<Rightarrow> bool" where
  "str_includes [] p = (p = [])"
| "str_includes (x # xs) p = (starts_with (x # xs) p \<or> str_includes xs p)"

definition endsWith :: "string \<Rightarrow> string \<Rightarrow> bool" where
  "endsWith s p = starts_with (rev s) (rev p)"

definition js_ws :: "char \<Rightarrow> bool" where
  "js_ws c = (c \<in> set [CHR 0x09, CHR 0x0A, CHR 0x0B, CHR 0x0C, CHR 0x0D, CHR 0x20, CHR 0xA0])"

definition trim :: "string \<Rightarrow> string" where
  "trim s = rev (dropWhile js_ws (rev (dropWhile js_ws s)))"

function toString :: "nat \<Rightarrow> string" where
  "toString n =
     (if n < 10 then [char_of (48 + n)]
      else toString (n div 10) @ [char_of (48 + n mod 10)])"
  by pat_completeness auto
termination
  by (relation "measure (\<lambda>n. n)") auto

declare toString.simps [simp del]

section \<open>The application state\<close>

text \<open>
  \<open>form\<close> is \<open>formData\<close> of the registration screen. A \<open>request\<close> is one call of the axios
  instance of \<open>apiService\<close>: the endpoint with its body. A call either resolves with the
  part of the response that the caller reads, or rejects with an error, of which the
  program reads \<open>error.response?.status\<close> and \<open>error.response?.data?.message\<close> only; an
  error without a response (no network, a timeout) has neither.

  \<open>app\<close> holds everything the authentication code reads and writes: the platform test
  \<open>typeof window !== 'undefined' && typeof localStorage !== 'undefined'\<close> (\<open>web\<close>), the two
  key-value stores, the token and the log of sent requests of the \<open>apiService\<close> singleton
  (each request with the \<open>Authorization\<close> header that the request interceptor gave it),
  and the three state variables of \<open>AuthProvider\<close>. Reading, writing and deleting a key
  goes to \<open>localStorage\<close> on the web and to \<open>SecureStore\<close> elsewhere, as every site of
  the source spells out; the operations of both stores are taken to succeed.
  The reply of the server to a call is an argument of the operation that makes the call.
\<close>

record form =
  student_id :: string
  email :: string
  password :: string
  password_confirm :: string
  first_name :: string
  last_name :: string
  course :: string
  year_level :: string

datatype request =
    POST_login string string
  | POST_register form
  | POST_logout
  | GET_profile
  | PUT_profile_update json
  | POST_chat_send string string "string option"

datatype http_error = HttpError (err_status: "nat option") (err_message: "string option")

datatype 'a reply = Resolved 'a | Rejected http_error

record app =
  web :: bool
  localStorage :: "string \<rightharpoonup> string"
  secureStore :: "string \<rightharpoonup> string"
  authToken :: "string option"
  requests :: "(request \<times> string option) list"
  user :: json
  token :: "string option"
  isLoading :: bool

definition getItem :: "string \<Rightarrow> app \<Rightarrow> string option" where
  "getItem k s = (if web s then localStorage s k else secureStore s k)"

definition setItem :: "string \<Rightarrow> string \<Rightarrow> app \<Rightarrow> app" where
  "setItem k v s =
     (if web s then s\<lparr>localStorage := (localStorage s)(k \<mapsto> v)\<rparr>
      else s\<lparr>secureStore := (secureStore s)(k \<mapsto> v)\<rparr>)"

definition removeItem :: "string \<Rightarrow> app \<Rightarrow> app" where
  "removeItem k s =
     (if web s then s\<lparr>localStorage := (localStorage s)(k := None)\<rparr>
      else s\<lparr>secureStore := (secureStore s)(k := None)\<rparr>)"

subsection \<open>apiService\<close>

text \<open>
  \<open>api_request\<close> is the request interceptor and the sending of the request,
  \<open>api_response\<close> the response interceptor, which forgets the token when a call is
  rejected with status 401; \<open>api_call\<close> is a whole call.
\<close>

definition authorization :: "app \<Rightarrow> string option" where
  "authorization s = (if truthy (authToken s) then Some (''Token '' @ the (authToken s)) else None)"

definition api_request :: "request \<Rightarrow> app \<Rightarrow> app" where
  "api_request rq s = s\<lparr>requests := requests s @ [(rq, authorization s)]\<rparr>"

definition api_response :: "'a reply \<Rightarrow> app \<Rightarrow> app" where
  "api_response rp s =
     (case rp of
        Resolved x \<Rightarrow> s
      | Rejected e \<Rightarrow> if err_status e = Some 401 then s\<lparr>authToken := None\<rparr> else s)"

definition api_call :: "request \<Rightarrow> 'a reply \<Rightarrow> app \<Rightarrow> 'a reply \<times> app" where
  "api_call rq rp s = (rp, api_response rp (api_request rq s))"

definition setAuthToken :: "string option \<Rightarrow> app \<Rightarrow> app" where
  "setAuthToken t s = s\<lparr>authToken := t\<rparr>"

record auth_data =
  data_token :: string
  data_user :: json

definition apiService_login :: "auth_data reply \<Rightarrow> string \<Rightarrow> string \<Rightarrow> app \<Rightarrow> auth_data reply \<times> app" where
  "apiService_login rp em pw s = api_call (POST_login em pw) rp s"

definition apiService_register :: "auth_data reply \<Rightarrow> form \<Rightarrow> app \<Rightarrow> auth_data reply \<times> app" where
  "apiService_register rp userData s = api_call (POST_register userData) rp s"

definition apiService_logout :: "unit reply \<Rightarrow> app \<Rightarrow> unit reply \<times> app" where
  "apiService_logout rp s = api_call POST_logout rp s"

definition apiService_getProfile :: "nat reply \<Rightarrow> app \<Rightarrow> nat reply \<times> app" where
  "apiService_getProfile rp s = api_call GET_profile rp s"

definition apiService_updateProfile :: "json reply \<Rightarrow> json \<Rightarrow> app \<Rightarrow> json reply \<times> app" where
  "apiService_updateProfile rp profileData s = api_call (PUT_profile_update profileData) rp s"

subsection \<open>AuthProvider\<close>

text \<open>
  \<open>AuthProvider_mount\<close> is the state in which the provider mounts: \<open>useState(null)\<close>
  twice, \<open>useState(true)\<close> for \<open>isLoading\<close>, and an \<open>apiService\<close> that has no token and
  has sent nothing. The effect of the mount runs \<open>loadStoredAuth\<close>. In
  \<open>validateAndSetAuth\<close> the \<open>catch\<close> clause receives a rejected \<open>getProfile\<close> and also the
  \<open>SyntaxError\<close> of \<open>JSON.parse\<close>, which is thrown after \<open>setToken(storedToken)\<close> has run.
  A result \<open>{ success, error }\<close> is a \<open>Result\<close>.
\<close>

datatype result = Result (success: bool) (error: "string option")

definition AuthProvider_mount :: "bool \<Rightarrow> (string \<rightharpoonup> string) \<Rightarrow> (string \<rightharpoonup> string) \<Rightarrow> app" where
  "AuthProvider_mount w ls ss =
     \<lparr>web = w, localStorage = ls, secureStore = ss, authToken = None, requests = [],
      user = JNull, token = None, isLoading = True\<rparr>"

definition clearStoredAuth :: "app \<Rightarrow> app" where
  "clearStoredAuth s = removeItem ''userData'' (removeItem ''authToken'' s)"

definition validateAndSetAuth :: "nat reply \<Rightarrow> string \<Rightarrow> string \<Rightarrow> app \<Rightarrow> bool \<times> app" where
  "validateAndSetAuth profile storedToken storedUser s =
     (case apiService_getProfile profile (setAuthToken (Some storedToken) s) of
        (Resolved status, s1) \<Rightarrow>
          if status = 200 then
            (let s2 = s1\<lparr>token := Some storedToken\<rparr>
             in case JSON_parse storedUser of
                  Some u \<Rightarrow> (True, s2\<lparr>user := u\<rparr>)
                | None \<Rightarrow> (False, clearStoredAuth s2))
          else (False, clearStoredAuth s1)
      | (Rejected e, s1) \<Rightarrow> (False, clearStoredAuth s1))"

definition loadStoredAuth :: "nat reply \<Rightarrow> app \<Rightarrow> app" where
  "loadStoredAuth profile s =
     (let storedToken = getItem ''authToken'' s;
          storedUser = getItem ''userData'' s;
          s1 = (if truthy storedToken \<and> truthy storedUser
                then snd (validateAndSetAuth profile (the storedToken) (the storedUser) s)
                else s)
      in s1\<lparr>isLoading := False\<rparr>)"

definition login :: "auth_data reply \<Rightarrow> string \<Rightarrow> string \<Rightarrow> app \<Rightarrow> result \<times> app" where
  "login rp em pw s =
     (case apiService_login rp em pw s of
        (Resolved d, s1) \<Rightarrow>
          (let s2 = setItem ''userData'' (JSON_stringify (data_user d))
                      (setItem ''authToken'' (data_token d) s1);
               s3 = s2\<lparr>token := Some (data_token d), user := data_user d\<rparr>
           in (Result True None, setAuthToken (Some (data_token d)) s3))
      | (Rejected e, s1) \<Rightarrow>
          (Result False (Some (or_else (err_message e) ''Login failed'')), s1))"

definition register :: "auth_data reply \<Rightarrow> form \<Rightarrow> app \<Rightarrow> result \<times> app" where
  "register rp userData s =
     (case apiService_register rp userData s of
        (Resolved d, s1) \<Rightarrow>
          (let s2 = setItem ''userData'' (JSON_stringify (data_user d))
                      (setItem ''authToken'' (data_token d) s1);
               s3 = s2\<lparr>token := Some (data_token d), user := data_user d\<rparr>
           in (Result True None, setAuthToken (Some (data_token d)) s3))
      | (Rejected e, s1) \<Rightarrow>
          (Result False (Some (or_else (err_message e) ''Registration failed'')), s1))"

definition logout :: "unit reply \<Rightarrow> app \<Rightarrow> app" where
  "logout rp s =
     (let s1 = snd (apiService_logout rp s);
          s2 = removeItem ''userData'' (removeItem ''authToken'' s1)
      in setAuthToken None (s2\<lparr>token := None, user := JNull\<rparr>))"

definition updateProfile :: "json reply \<Rightarrow> json \<Rightarrow> app \<Rightarrow> result \<times> app" where
  "updateProfile rp profileData s =
     (case apiService_updateProfile rp profileData s of
        (Resolved updatedUser, s1) \<Rightarrow>
          (Result True None, (setItem ''userData'' (JSON_stringify updatedUser) s1)\<lparr>user := updatedUser\<rparr>)
      | (Rejected e, s1) \<Rightarrow>
          (Result False (Some (or_else (err_message e) ''Profile update failed'')), s1))"

subsection \<open>RegisterScreen and LoginScreen\<close>

text \<open>
  An \<open>alert\<close> is a call of \<open>Alert.alert\<close> with its title and message. \<open>validateForm\<close>
  returns its boolean and the alert it raised; the two handlers return the alerts they
  raised and the new state. The busy flag \<open>loading\<close> of each screen is set around the call
  and read by the view only; it is left out.
\<close>

type_synonym alert = "string \<times> string option"

definition validateForm :: "form \<Rightarrow> bool \<times> alert list" where
  "validateForm formData =
     (if student_id formData = [] \<or> email formData = [] \<or> password formData = []
         \<or> password_confirm formData = [] \<or> first_name formData = [] \<or> last_name formData = []
      then (False, [(''Error'', Some ''Please fill in all required fields'')])
      else if password formData \<noteq> password_confirm formData
      then (False, [(''Error'', Some ''Passwords do not match'')])
      else if length (password formData) < 6
      then (False, [(''Error'', Some ''Password must be at least 6 characters'')])
      else if \<not> str_includes (toLowerCase (email formData)) ''@evsu.edu.ph''
            \<and> \<not> str_includes (toLowerCase (email formData)) ''@student.evsu.edu.ph''
      then (False, [(''Error'', Some ''Please use your EVSU email address'')])
      else (True, []))"

definition handleRegister :: "auth_data reply \<Rightarrow> form \<Rightarrow> app \<Rightarrow> alert list \<times> app" where
  "handleRegister rp formData s =
     (case validateForm formData of
        (False, alerts) \<Rightarrow> (alerts, s)
      | (True, alerts) \<Rightarrow>
          (case register rp formData s of
             (res, s1) \<Rightarrow>
               if success res
               then (alerts @ [(''Success'', Some ''Registration successful! Welcome to Konsultabot.'')], s1)
               else (alerts @ [(''Registration Failed'', error res)], s1)))"

definition handleLogin :: "auth_data reply \<Rightarrow> string \<Rightarrow> string \<Rightarrow> app \<Rightarrow> alert list \<times> app" where
  "handleLogin rp em pw s =
     (if em = [] \<or> pw = [] then ([(''Error'', Some ''Please fill in all fields'')], s)
      else (case login rp em pw s of
              (res, s1) \<Rightarrow>
                if \<not> success res then ([(''Login Failed'', error res)], s1) else ([], s1)))"

subsection \<open>ChatScreen\<close>

text \<open>
  The fields of a chat message carry the prefix \<open>m_\<close>, those of \<open>response.data\<close> of the
  send-message call the prefix \<open>d_\<close>. \<open>chat\<close> is the state of the screen. One run of
  \<open>sendMessage\<close> reads the clock four times and awaits one reply: \<open>send_io\<close> gives
  \<open>Date.now()\<close> and \<open>new Date()\<close> of the user message, the reply, and \<open>Date.now()\<close> and
  \<open>new Date()\<close> of the message appended after it. \<open>sendMessage_pending\<close> is the run up to
  the \<open>await\<close>, with the request sent and the reply not yet there;
  \<open>sendMessage_settle\<close> is the rest, for the \<open>inputText\<close>, \<open>language\<close> and \<open>sessionId\<close> that
  the closure captured. \<open>conversation\<close> runs a sequence of sends, the user typing a text
  before each and each send settling before the next starts; \<open>carries sid\<close> holds of a
  send-message request whose payload has the session id \<open>sid\<close>. Speech output is left out.

  The text input submits through \<open>onSubmitEditing\<close> whether or not a send is in flight,
  so sends can overlap. \<open>chat_run\<close> runs a sequence of events on the state of the screen
  and the list of the sends in flight, each with the state its closure captured:
  \<open>Start\<close> is the user typing a text and submitting it, \<open>Settle i\<close> is the arrival of the
  reply of the \<open>i\<close>-th send in flight. \<open>started_with_id\<close> holds of a send in flight whose
  closure captured a non-empty session id.
\<close>

record message =
  m_id :: string
  m_text :: string
  m_isBot :: bool
  m_timestamp :: nat
  m_language :: "json option"
  m_mode :: "json option"
  m_confidence :: "json option"
  m_isError :: bool

record chat_data =
  d_response :: string
  d_session_id :: "string option"
  d_language :: "json option"
  d_mode :: "json option"
  d_confidence :: "json option"

record chat =
  messages :: "message list"
  inputText :: string
  language :: string
  sessionId :: "string option"

record send_io =
  now_sent :: nat
  date_sent :: nat
  reply :: "chat_data reply"
  now_settled :: nat
  date_settled :: nat

definition welcomeMessage :: "nat \<Rightarrow> message" where
  "welcomeMessage date =
     \<lparr>m_id = ''welcome'',
      m_text = ''Welcome to Konsultabot! I'm your AI assistant for EVSU Dulag campus. How can I help you today?'',
      m_isBot = True, m_timestamp = date,
      m_language = None, m_mode = None, m_confidence = None, m_isError = False\<rparr>"

definition ChatScreen_mount :: "nat \<Rightarrow> chat" where
  "ChatScreen_mount date =
     \<lparr>messages = [welcomeMessage date], inputText = [], language = ''english'', sessionId = None\<rparr>"

definition apiService_sendMessage_payload :: "string \<Rightarrow> string \<Rightarrow> string option \<Rightarrow> request" where
  "apiService_sendMessage_payload msg lang sid =
     (if truthy sid then POST_chat_send msg lang sid else POST_chat_send msg lang None)"

definition userMessage :: "send_io \<Rightarrow> chat \<Rightarrow> message" where
  "userMessage io c =
     \<lparr>m_id = toString (now_sent io), m_text = trim (inputText c),
      m_isBot = False, m_timestamp = date_sent io,
      m_language = None, m_mode = None, m_confidence = None, m_isError = False\<rparr>"

definition botMessage :: "send_io \<Rightarrow> chat_data \<Rightarrow> message" where
  "botMessage io d =
     \<lparr>m_id = toString (now_settled io + 1), m_text = d_response d,
      m_isBot = True, m_timestamp = date_settled io,
      m_language = d_language d, m_mode = d_mode d, m_confidence = d_confidence d,
      m_isError = False\<rparr>"

definition errorMessage :: "send_io \<Rightarrow> message" where
  "errorMessage io =
     \<lparr>m_id = toString (now_settled io + 1),
      m_text = ''Sorry, I encountered an error. Please try again.'',
      m_isBot = True, m_timestamp = date_settled io,
      m_language = None, m_mode = None, m_confidence = None, m_isError = True\<rparr>"

definition sendMessage_pending :: "send_io \<Rightarrow> chat \<Rightarrow> app \<Rightarrow> chat \<times> app" where
  "sendMessage_pending io c s =
     (c\<lparr>messages := messages c @ [userMessage io c], inputText := []\<rparr>,
      api_request (apiService_sendMessage_payload (trim (inputText c)) (language c) (sessionId c)) s)"

definition sendMessage_settle :: "send_io \<Rightarrow> chat \<Rightarrow> chat \<times> app \<Rightarrow> chat \<times> app" where
  "sendMessage_settle io c p =
     (case p of (c1, s1) \<Rightarrow>
        (case reply io of
           Resolved d \<Rightarrow>
             (let c2 = (if \<not> truthy (sessionId c) then c1\<lparr>sessionId := d_session_id d\<rparr> else c1)
              in (c2\<lparr>messages := messages c2 @ [botMessage io d]\<rparr>, api_response (reply io) s1))
         | Rejected e \<Rightarrow>
             (c1\<lparr>messages := messages c1 @ [errorMessage io]\<rparr>, api_response (reply io) s1)))"

definition sendMessage :: "send_io \<Rightarrow> chat \<times> app \<Rightarrow> chat \<times> app" where
  "sendMessage io p =
     (case p of (c, s) \<Rightarrow>
        if trim (inputText c) = [] then (c, s)
        else sendMessage_settle io c (sendMessage_pending io c s))"

fun conversation :: "(string \<times> send_io) list \<Rightarrow> chat \<times> app \<Rightarrow> chat \<times> app" where
  "conversation [] p = p"
| "conversation (ev # evs) p =
     conversation evs (sendMessage (snd ev) ((fst p)\<lparr>inputText := fst ev\<rparr>, snd p))"

definition carries :: "string option \<Rightarrow> request \<times> string option \<Rightarrow> bool" where
  "carries sid rq = (case fst rq of POST_chat_send msg lang x \<Rightarrow> x = sid | _ \<Rightarrow> False)"

datatype chat_event = Start string send_io | Settle nat

fun chat_step :: "chat_event \<Rightarrow> (chat \<times> app) \<times> (chat \<times> send_io) list
    \<Rightarrow> (chat \<times> app) \<times> (chat \<times> send_io) list" where
  "chat_step (Start txt io) (p, ps) =
     (if trim txt = [] then (((fst p)\<lparr>inputText := txt\<rparr>, snd p), ps)
      else (sendMessage_pending io ((fst p)\<lparr>inputText := txt\<rparr>) (snd p),
            ps @ [((fst p)\<lparr>inputText := txt\<rparr>, io)]))"
| "chat_step (Settle i) (p, ps) =
     (if i < length ps
      then (sendMessage_settle (snd (ps ! i)) (fst (ps ! i)) p, take i ps @ drop (Suc i) ps)
      else (p, ps))"

fun chat_run :: "chat_event list \<Rightarrow> (chat \<times> app) \<times> (chat \<times> send_io) list
    \<Rightarrow> (chat \<times> app) \<times> (chat \<times> send_io) list" where
  "chat_run [] st = st"
| "chat_run (ev # evs) st = chat_run evs (chat_step ev st)"

definition started_with_id :: "chat \<times> send_io \<Rightarrow> bool" where
  "started_with_id q = truthy (sessionId (fst q))"

subsection \<open>Concrete inputs\<close>

text \<open>
  A registration form with the given email, password and confirmation, the data of a
  successful send-message response with the given text and session id, and the clock and
  reply of a send whose user message is made at \<open>t1\<close> and answered at \<open>t2\<close>.
\<close>

definition example_form :: "string \<Rightarrow> string \<Rightarrow> string \<Rightarrow> form" where
  "example_form em pw pc =
     \<lparr>student_id = ''2021-0001'', email = em, password = pw, password_confirm = pc,
      first_name = ''Juan'', last_name = ''Cruz'', course = ''BSIT'', year_level = ''3''\<rparr>"

definition example_data :: "string \<Rightarrow> string option \<Rightarrow> chat_data" where
  "example_data txt sid =
     \<lparr>d_response = txt, d_session_id = sid, d_language = None, d_mode = None, d_confidence = None\<rparr>"

definition example_io :: "nat \<Rightarrow> chat_data reply \<Rightarrow> nat \<Rightarrow> send_io" where
  "example_io t1 rp t2 =
     \<lparr>now_sent = t1, date_sent = t1, reply = rp, now_settled = t2, date_settled = t2\<rparr>"

section \<open>Frame lemmas\<close>

lemma getItem_removeItem:
  "getItem k (removeItem k' s) = (if k = k' then None else getItem k s)"
  by (simp add: getItem_def removeItem_def)

lemma getItem_isLoading:
  "getItem k (s\<lparr>isLoading := b\<rparr>) = getItem k s"
  by (simp add: getItem_def)

lemma clearStoredAuth_frame:
  "user (clearStoredAuth s) = user s"
  "token (clearStoredAuth s) = token s"
  "authToken (clearStoredAuth s) = authToken s"
  "requests (clearStoredAuth s) = requests s"
  by (simp_all add: clearStoredAuth_def removeItem_def)

lemma clearStoredAuth_store:
  "getItem ''authToken'' (clearStoredAuth s) = None"
  "getItem ''userData'' (clearStoredAuth s) = None"
  by (simp_all add: clearStoredAuth_def getItem_removeItem)

lemma api_request_frame:
  "user (api_request rq s) = user s"
  "token (api_request rq s) = token s"
  "localStorage (api_request rq s) = localStorage s"
  "secureStore (api_request rq s) = secureStore s"
  "authToken (api_request rq s) = authToken s"
  "requests (api_request rq s) = requests s @ [(rq, authorization s)]"
  by (simp_all add: api_request_def)

lemma api_response_frame:
  "user (api_response rp s) = user s"
  "token (api_response rp s) = token s"
  "localStorage (api_response rp s) = localStorage s"
  "secureStore (api_response rp s) = secureStore s"
  "requests (api_response rp s) = requests s"
  by (simp_all add: api_response_def split: reply.splits)

lemma api_response_authToken:
  "authToken (api_response rp s) =
     (case rp of
        Resolved x \<Rightarrow> authToken s
      | Rejected e \<Rightarrow> if err_status e = Some 401 then None else authToken s)"
  by (simp add: api_response_def split: reply.splits)

lemma or_else_cases:
  "or_else m d = (case m of None \<Rightarrow> d | Some x \<Rightarrow> if x = [] then d else x)"
  by (simp add: or_else_def truthy_def split: option.splits)

section \<open>Session bootstrap\<close>

lemma validateAndSetAuth_failure:
  assumes "profile \<noteq> Resolved 200"
  shows "validateAndSetAuth profile t u s =
           (False, clearStoredAuth (api_response profile
                     (api_request GET_profile (setAuthToken (Some t) s))))"
  using assms
  by (cases profile) (simp_all add: validateAndSetAuth_def apiService_getProfile_def api_call_def)

lemma loadStoredAuth_failure:
  assumes "truthy (getItem ''authToken'' s)"
    and "truthy (getItem ''userData'' s)"
    and "profile \<noteq> Resolved 200"
  shows "loadStoredAuth profile s =
           (clearStoredAuth (api_response profile
              (api_request GET_profile (setAuthToken (getItem ''authToken'' s) s))))
           \<lparr>isLoading := False\<rparr>"
proof -
  from assms(1) have "Some (the (getItem ''authToken'' s)) = getItem ''authToken'' s"
    by (cases "getItem ''authToken'' s") (simp_all add: truthy_def)
  with assms show ?thesis
    by (simp add: loadStoredAuth_def Let_def validateAndSetAuth_failure)
qed

lemma loadStoredAuth_absent:
  assumes "\<not> truthy (getItem ''authToken'' s) \<or> \<not> truthy (getItem ''userData'' s)"
  shows "loadStoredAuth profile s = s\<lparr>isLoading := False\<rparr>"
  using assms by (auto simp add: loadStoredAuth_def Let_def)

lemma JSON_parse_undefined: "JSON_parse ''undefined'' = None"
  by (simp add: JSON_parse_def skip_ws_def json_ws_def lex_number_def lex_int_def is_digit_def)

text \<open>
  C1. The provider mounts with a truthy token and a truthy user record in the credential
  store, and the profile fetch of the bootstrap does anything but resolve with status 200
  (it is rejected, or it resolves with another status). Then the bootstrap returns a state
  in which both entries of the credential store are gone, \<open>user\<close> and \<open>token\<close> are both
  \<open>null\<close>, and \<open>isLoading\<close> is false.
\<close>

theorem bootstrap_validation_failure:
  assumes "truthy (getItem ''authToken'' (AuthProvider_mount w ls ss))"
    and "truthy (getItem ''userData'' (AuthProvider_mount w ls ss))"
    and "profile \<noteq> Resolved 200"
  shows "getItem ''authToken'' (loadStoredAuth profile (AuthProvider_mount w ls ss)) = None
       \<and> getItem ''userData'' (loadStoredAuth profile (AuthProvider_mount w ls ss)) = None
       \<and> user (loadStoredAuth profile (AuthProvider_mount w ls ss)) = JNull
       \<and> token (loadStoredAuth profile (AuthProvider_mount w ls ss)) = None
       \<and> isLoading (loadStoredAuth profile (AuthProvider_mount w ls ss)) = False"
proof -
  have "user (AuthProvider_mount w ls ss) = JNull" "token (AuthProvider_mount w ls ss) = None"
    by (simp_all add: AuthProvider_mount_def)
  then show ?thesis
    by (simp add: loadStoredAuth_failure [OF assms] getItem_isLoading clearStoredAuth_store
        clearStoredAuth_frame api_response_frame api_request_frame setAuthToken_def)
qed

text \<open>
  On the web, with the token \<open>abc\<close> and a user record in \<open>localStorage\<close>, and a profile
  fetch that is rejected without a response.
\<close>

theorem bootstrap_validation_failure_witness:
  "truthy (getItem ''authToken''
      (AuthProvider_mount True [''authToken'' \<mapsto> ''abc'', ''userData'' \<mapsto> ''{\"id\":7}''] Map.empty))
   \<and> truthy (getItem ''userData''
      (AuthProvider_mount True [''authToken'' \<mapsto> ''abc'', ''userData'' \<mapsto> ''{\"id\":7}''] Map.empty))
   \<and> getItem ''authToken'' (loadStoredAuth (Rejected (HttpError None None))
      (AuthProvider_mount True [''authToken'' \<mapsto> ''abc'', ''userData'' \<mapsto> ''{\"id\":7}''] Map.empty)) = None
   \<and> getItem ''userData'' (loadStoredAuth (Rejected (HttpError None None))
      (AuthProvider_mount True [''authToken'' \<mapsto> ''abc'', ''userData'' \<mapsto> ''{\"id\":7}''] Map.empty)) = None
   \<and> user (loadStoredAuth (Rejected (HttpError None None))
      (AuthProvider_mount True [''authToken'' \<mapsto> ''abc'', ''userData'' \<mapsto> ''{\"id\":7}''] Map.empty)) = JNull
   \<and> token (loadStoredAuth (Rejected (HttpError None None))
      (AuthProvider_mount True [''authToken'' \<mapsto> ''abc'', ''userData'' \<mapsto> ''{\"id\":7}''] Map.empty)) = None
   \<and> isLoading (loadStoredAuth (Rejected (HttpError None None))
      (AuthProvider_mount True [''authToken'' \<mapsto> ''abc'', ''userData'' \<mapsto> ''{\"id\":7}''] Map.empty)) = False"
  using bootstrap_validation_failure [of True
      "[''authToken'' \<mapsto> ''abc'', ''userData'' \<mapsto> ''{\"id\":7}'']" Map.empty
      "Rejected (HttpError None None)"]
  by (simp add: getItem_def AuthProvider_mount_def truthy_def)

text \<open>
  C2. The credential store holds the token \<open>abc\<close> and, as user record, the text
  \<open>undefined\<close>, which is not JSON; the profile fetch resolves with status 200. The
  bootstrap then leaves \<open>token\<close> set to \<open>abc\<close> while \<open>user\<close> is \<open>null\<close>, and both entries of
  the credential store are deleted: the token is restored without the user record.
\<close>

theorem bootstrap_partial_restore:
  "token (loadStoredAuth (Resolved 200)
      (AuthProvider_mount True [''authToken'' \<mapsto> ''abc'', ''userData'' \<mapsto> ''undefined''] Map.empty))
     = Some ''abc''
   \<and> user (loadStoredAuth (Resolved 200)
      (AuthProvider_mount True [''authToken'' \<mapsto> ''abc'', ''userData'' \<mapsto> ''undefined''] Map.empty))
     = JNull
   \<and> getItem ''authToken'' (loadStoredAuth (Resolved 200)
      (AuthProvider_mount True [''authToken'' \<mapsto> ''abc'', ''userData'' \<mapsto> ''undefined''] Map.empty))
     = None
   \<and> getItem ''userData'' (loadStoredAuth (Resolved 200)
      (AuthProvider_mount True [''authToken'' \<mapsto> ''abc'', ''userData'' \<mapsto> ''undefined''] Map.empty))
     = None"
  by (simp add: loadStoredAuth_def Let_def getItem_def AuthProvider_mount_def truthy_def
      validateAndSetAuth_def apiService_getProfile_def api_call_def api_request_def
      api_response_def setAuthToken_def JSON_parse_undefined clearStoredAuth_def removeItem_def)

text \<open>
  C10. Under the hypotheses of C1, the token of the \<open>apiService\<close> collaborator after
  the bootstrap is still the stored token, unless the profile fetch was rejected with status
  401, in which case the response interceptor has reset it. The one request of the bootstrap
  was sent with the stored token in its header, so the token was given to the collaborator
  before the validation; the session state is unauthenticated and the credential store is
  cleared all the same.
\<close>

theorem stale_collaborator_token:
  assumes "truthy (getItem ''authToken'' (AuthProvider_mount w ls ss))"
    and "truthy (getItem ''userData'' (AuthProvider_mount w ls ss))"
    and "profile \<noteq> Resolved 200"
  shows "authToken (loadStoredAuth profile (AuthProvider_mount w ls ss)) =
           (case profile of
              Resolved status \<Rightarrow> getItem ''authToken'' (AuthProvider_mount w ls ss)
            | Rejected e \<Rightarrow>
                if err_status e = Some 401 then None
                else getItem ''authToken'' (AuthProvider_mount w ls ss))
       \<and> requests (loadStoredAuth profile (AuthProvider_mount w ls ss)) =
           [(GET_profile, Some (''Token '' @ the (getItem ''authToken'' (AuthProvider_mount w ls ss))))]
       \<and> user (loadStoredAuth profile (AuthProvider_mount w ls ss)) = JNull
       \<and> token (loadStoredAuth profile (AuthProvider_mount w ls ss)) = None
       \<and> getItem ''authToken'' (loadStoredAuth profile (AuthProvider_mount w ls ss)) = None
       \<and> getItem ''userData'' (loadStoredAuth profile (AuthProvider_mount w ls ss)) = None"
proof -
  have "user (AuthProvider_mount w ls ss) = JNull" "token (AuthProvider_mount w ls ss) = None"
    "requests (AuthProvider_mount w ls ss) = []"
    by (simp_all add: AuthProvider_mount_def)
  moreover have "authorization (setAuthToken (getItem ''authToken'' (AuthProvider_mount w ls ss))
      (AuthProvider_mount w ls ss)) =
      Some (''Token '' @ the (getItem ''authToken'' (AuthProvider_mount w ls ss)))"
    using assms(1) by (simp add: authorization_def setAuthToken_def)
  ultimately show ?thesis
    by (simp add: loadStoredAuth_failure [OF assms] getItem_isLoading clearStoredAuth_store
        clearStoredAuth_frame api_response_frame api_request_frame api_response_authToken
        setAuthToken_def split: reply.splits)
qed

text \<open>
  On a device, with the token \<open>abc\<close> in \<open>SecureStore\<close>: a profile fetch that fails without
  a response leaves \<open>abc\<close> with the collaborator, one that is rejected with 401 does not.
\<close>

theorem stale_collaborator_token_witness:
  "truthy (getItem ''authToken''
      (AuthProvider_mount False Map.empty [''authToken'' \<mapsto> ''abc'', ''userData'' \<mapsto> ''{}'']))
   \<and> truthy (getItem ''userData''
      (AuthProvider_mount False Map.empty [''authToken'' \<mapsto> ''abc'', ''userData'' \<mapsto> ''{}'']))
   \<and> authToken (loadStoredAuth (Rejected (HttpError None None))
      (AuthProvider_mount False Map.empty [''authToken'' \<mapsto> ''abc'', ''userData'' \<mapsto> ''{}'']))
     = Some ''abc''
   \<and> authToken (loadStoredAuth (Rejected (HttpError (Some 401) None))
      (AuthProvider_mount False Map.empty [''authToken'' \<mapsto> ''abc'', ''userData'' \<mapsto> ''{}'']))
     = None
   \<and> requests (loadStoredAuth (Rejected (HttpError None None))
      (AuthProvider_mount False Map.empty [''authToken'' \<mapsto> ''abc'', ''userData'' \<mapsto> ''{}'']))
     = [(GET_profile, Some ''Token abc'')]
   \<and> token (loadStoredAuth (Rejected (HttpError None None))
      (AuthProvider_mount False Map.empty [''authToken'' \<mapsto> ''abc'', ''userData'' \<mapsto> ''{}'']))
     = None
   \<and> getItem ''authToken'' (loadStoredAuth (Rejected (HttpError None None))
      (AuthProvider_mount False Map.empty [''authToken'' \<mapsto> ''abc'', ''userData'' \<mapsto> ''{}'']))
     = None"
  using stale_collaborator_token [of False Map.empty
      "[''authToken'' \<mapsto> ''abc'', ''userData'' \<mapsto> ''{}'']" "Rejected (HttpError None None)"]
    stale_collaborator_token [of False Map.empty
      "[''authToken'' \<mapsto> ''abc'', ''userData'' \<mapsto> ''{}'']" "Rejected (HttpError (Some 401) None)"]
  by (simp add: getItem_def AuthProvider_mount_def truthy_def)

section \<open>Auth operations\<close>

text \<open>
  C3. Whatever the logout call does, \<open>logout\<close> ends with both entries of the credential
  store deleted, \<open>user\<close> and \<open>token\<close> \<open>null\<close> and the token of the \<open>apiService\<close>
  collaborator \<open>null\<close>; the state after a rejected call is the state after a resolved one.
\<close>

theorem logout_unconditional:
  "getItem ''authToken'' (logout rp s) = None
   \<and> getItem ''userData'' (logout rp s) = None
   \<and> user (logout rp s) = JNull
   \<and> token (logout rp s) = None
   \<and> authToken (logout rp s) = None
   \<and> logout (Rejected e) s = logout (Resolved ()) s"
  by (simp add: logout_def Let_def apiService_logout_def api_call_def api_request_def
      api_response_def setAuthToken_def removeItem_def getItem_def)

text \<open>
  C8, as amended. When the call of \<open>login\<close>, \<open>register\<close> or \<open>updateProfile\<close> is rejected,
  the operation returns \<open>{ success: false, error }\<close>, where \<open>error\<close> is the message of the
  error payload if there is one and it is not empty, and the fallback text of the operation
  otherwise; \<open>user\<close>, \<open>token\<close> and both stores are as they were.
\<close>

theorem auth_failure_result:
  "fst (login (Rejected e) em pw s) =
      Result False (Some (case err_message e of
                            None \<Rightarrow> ''Login failed''
                          | Some m \<Rightarrow> if m = [] then ''Login failed'' else m))
   \<and> fst (register (Rejected e) userData s) =
      Result False (Some (case err_message e of
                            None \<Rightarrow> ''Registration failed''
                          | Some m \<Rightarrow> if m = [] then ''Registration failed'' else m))
   \<and> fst (updateProfile (Rejected e) profileData s) =
      Result False (Some (case err_message e of
                            None \<Rightarrow> ''Profile update failed''
                          | Some m \<Rightarrow> if m = [] then ''Profile update failed'' else m))
   \<and> user (snd (login (Rejected e) em pw s)) = user s
   \<and> token (snd (login (Rejected e) em pw s)) = token s
   \<and> localStorage (snd (login (Rejected e) em pw s)) = localStorage s
   \<and> secureStore (snd (login (Rejected e) em pw s)) = secureStore s
   \<and> user (snd (register (Rejected e) userData s)) = user s
   \<and> token (snd (register (Rejected e) userData s)) = token s
   \<and> localStorage (snd (register (Rejected e) userData s)) = localStorage s
   \<and> secureStore (snd (register (Rejected e) userData s)) = secureStore s
   \<and> user (snd (updateProfile (Rejected e) profileData s)) = user s
   \<and> token (snd (updateProfile (Rejected e) profileData s)) = token s
   \<and> localStorage (snd (updateProfile (Rejected e) profileData s)) = localStorage s
   \<and> secureStore (snd (updateProfile (Rejected e) profileData s)) = secureStore s"
  by (simp add: login_def register_def updateProfile_def apiService_login_def
      apiService_register_def apiService_updateProfile_def api_call_def
      api_response_frame api_request_frame or_else_cases)

text \<open>
  A login rejected with status 400 and the payload \<open>{ message: "" }\<close>: the message field
  is present, and the error returned is not that message.
\<close>

theorem empty_message_counterexample:
  "err_message (HttpError (Some 400) (Some '''')) = Some ''''
   \<and> error (fst (login (Rejected (HttpError (Some 400) (Some ''''))) ''juan@evsu.edu.ph'' ''secret1''
                 (AuthProvider_mount True Map.empty Map.empty))) = Some ''Login failed''
   \<and> error (fst (login (Rejected (HttpError (Some 400) (Some ''''))) ''juan@evsu.edu.ph'' ''secret1''
                 (AuthProvider_mount True Map.empty Map.empty))) \<noteq> Some ''''"
  by (simp add: login_def apiService_login_def api_call_def or_else_def truthy_def)

section \<open>Registration and login forms\<close>

lemma handleRegister_rejected:
  "fst (validateForm formData) = False \<Longrightarrow> snd (handleRegister rp formData s) = s"
  by (cases "validateForm formData") (simp add: handleRegister_def)

lemma validateForm_no_domain:
  assumes "\<not> str_includes (toLowerCase (email formData)) ''@evsu.edu.ph''"
    and "\<not> str_includes (toLowerCase (email formData)) ''@student.evsu.edu.ph''"
  shows "fst (validateForm formData) = False"
  using assms by (simp add: validateForm_def)

text \<open>
  C6. The email \<open>juan@evsu.edu.ph.example.com\<close> ends in neither \<open>@evsu.edu.ph\<close> nor
  \<open>@student.evsu.edu.ph\<close>. A form with it, otherwise well filled, passes \<open>validateForm\<close>,
  and \<open>handleRegister\<close> sends the registration request.
\<close>

theorem register_foreign_domain:
  "\<not> endsWith (toLowerCase ''juan@evsu.edu.ph.example.com'') ''@evsu.edu.ph''
   \<and> \<not> endsWith (toLowerCase ''juan@evsu.edu.ph.example.com'') ''@student.evsu.edu.ph''
   \<and> fst (validateForm (example_form ''juan@evsu.edu.ph.example.com'' ''secret1'' ''secret1'')) = True
   \<and> requests (snd (handleRegister (Rejected (HttpError None None))
        (example_form ''juan@evsu.edu.ph.example.com'' ''secret1'' ''secret1'')
        (AuthProvider_mount True Map.empty Map.empty)))
      = [(POST_register (example_form ''juan@evsu.edu.ph.example.com'' ''secret1'' ''secret1''), None)]"
  by (simp add: endsWith_def toLowerCase_def lower_def Let_def validateForm_def example_form_def handleRegister_def
      register_def apiService_register_def api_call_def api_request_def api_response_def
      authorization_def truthy_def AuthProvider_mount_def)

text \<open>
  C7. The form with a password confirmation is the registration form. A submission of
  it in which the password and the confirmation differ sends no request, whatever the
  server would have replied.
\<close>

theorem register_mismatch_no_call:
  assumes "password formData \<noteq> password_confirm formData"
  shows "requests (snd (handleRegister rp formData s)) = requests s"
proof -
  from assms have "fst (validateForm formData) = False"
    by (simp add: validateForm_def)
  then show ?thesis
    by (simp add: handleRegister_rejected)
qed

text \<open>
  A registration with the passwords \<open>secret1\<close> and \<open>secret2\<close>, which the server would
  have accepted.
\<close>

theorem register_mismatch_no_call_witness:
  "password (example_form ''juan@evsu.edu.ph'' ''secret1'' ''secret2'')
     \<noteq> password_confirm (example_form ''juan@evsu.edu.ph'' ''secret1'' ''secret2'')
   \<and> requests (snd (handleRegister (Resolved \<lparr>data_token = ''t'', data_user = JNull\<rparr>)
        (example_form ''juan@evsu.edu.ph'' ''secret1'' ''secret2'')
        (AuthProvider_mount True Map.empty Map.empty))) = []"
  using register_mismatch_no_call [of "example_form ''juan@evsu.edu.ph'' ''secret1'' ''secret2''"
      "Resolved \<lparr>data_token = ''t'', data_user = JNull\<rparr>" "AuthProvider_mount True Map.empty Map.empty"]
  by (simp add: example_form_def AuthProvider_mount_def)

section \<open>Chat session\<close>

lemma ChatScreen_mount_messages:
  "messages (ChatScreen_mount date) = [welcomeMessage date]"
  by (simp add: ChatScreen_mount_def)

lemma sendMessage_messages:
  "messages (fst (sendMessage io (c, s))) =
     messages c @
       (if trim (inputText c) = [] then []
        else [userMessage io c,
              case reply io of Resolved d \<Rightarrow> botMessage io d | Rejected e \<Rightarrow> errorMessage io])"
  by (simp add: sendMessage_def sendMessage_pending_def sendMessage_settle_def split: reply.splits)

lemma toString_examples:
  "toString 1000 = ''1000''" "toString 1201 = ''1201''"
  by code_simp+

lemma trim_example: "trim '' hi '' = ''hi''"
  by (simp add: trim_def js_ws_def)

lemma carries_iff:
  "carries sid rq = (\<exists>msg lang. fst rq = POST_chat_send msg lang sid)"
  by (cases "fst rq") (simp_all add: carries_def)

lemma pending_frame:
  "sessionId (fst (sendMessage_pending io c s)) = sessionId c"
  "requests (snd (sendMessage_pending io c s)) =
     requests s @ [(apiService_sendMessage_payload (trim (inputText c)) (language c) (sessionId c),
                    authorization s)]"
  by (simp_all add: sendMessage_pending_def api_request_def)

lemma settle_frame:
  "sessionId (fst (sendMessage_settle io cl (c, s))) =
     (case reply io of
        Resolved d \<Rightarrow> if truthy (sessionId cl) then sessionId c else d_session_id d
      | Rejected e \<Rightarrow> sessionId c)"
  "requests (snd (sendMessage_settle io cl (c, s))) = requests s"
  by (simp_all add: sendMessage_settle_def api_response_frame split: reply.splits)

lemma chat_step_active:
  assumes "truthy (sessionId (fst (fst st)))"
    and "list_all started_with_id (snd st)"
  shows "sessionId (fst (fst (chat_step ev st))) = sessionId (fst (fst st))
       \<and> list_all started_with_id (snd (chat_step ev st))
       \<and> (\<exists>new. requests (snd (fst (chat_step ev st))) = requests (snd (fst st)) @ new
                \<and> list_all (carries (sessionId (fst (fst st)))) new)"
proof -
  obtain c s ps where st: "st = ((c, s), ps)" by (cases st) auto
  from assms st have t: "truthy (sessionId c)" and a: "list_all started_with_id ps" by simp_all
  show ?thesis
  proof (cases ev)
    case (Start tx io)
    show ?thesis
    proof (cases "trim tx = []")
      case True
      with Start st a show ?thesis by simp
    next
      case False
      have "list_all (carries (sessionId c))
              [(apiService_sendMessage_payload (trim tx) (language c) (sessionId c), authorization s)]"
        using t by (simp add: carries_def apiService_sendMessage_payload_def)
      with False Start st a t show ?thesis
        by (simp add: pending_frame started_with_id_def)
    qed
  next
    case (Settle i)
    show ?thesis
    proof (cases "i < length ps")
      case True
      with a have "started_with_id (ps ! i)" by (simp add: list_all_length)
      then have k: "truthy (sessionId (fst (ps ! i)))" by (simp add: started_with_id_def)
      have "list_all started_with_id (take i ps @ drop (Suc i) ps)"
        using a by (auto simp add: list_all_iff dest: in_set_takeD in_set_dropD)
      with True Settle st k show ?thesis
        by (simp add: settle_frame split: reply.splits)
    next
      case False
      with Settle st a show ?thesis by simp
    qed
  qed
qed

lemma chat_run_active:
  assumes "truthy (sessionId (fst (fst st)))"
    and "list_all started_with_id (snd st)"
  shows "sessionId (fst (fst (chat_run evs st))) = sessionId (fst (fst st))
       \<and> (\<exists>new. requests (snd (fst (chat_run evs st))) = requests (snd (fst st)) @ new
                \<and> list_all (carries (sessionId (fst (fst st)))) new)"
  using assms
proof (induction evs arbitrary: st)
  case Nil
  then show ?case by simp
next
  case (Cons ev evs)
  let ?st = "chat_step ev st"
  from chat_step_active [OF Cons.prems, of ev] obtain n1 where
    k: "sessionId (fst (fst ?st)) = sessionId (fst (fst st))"
    and a: "list_all started_with_id (snd ?st)"
    and r1: "requests (snd (fst ?st)) = requests (snd (fst st)) @ n1"
    and c1: "list_all (carries (sessionId (fst (fst st)))) n1"
    by blast
  from Cons.prems(1) k have "truthy (sessionId (fst (fst ?st)))" by simp
  from Cons.IH [OF this a] k obtain n2 where
    k2: "sessionId (fst (fst (chat_run evs ?st))) = sessionId (fst (fst st))"
    and r2: "requests (snd (fst (chat_run evs ?st))) = requests (snd (fst ?st)) @ n2"
    and c2: "list_all (carries (sessionId (fst (fst st)))) n2"
    by auto
  from r1 r2 c1 c2 have "requests (snd (fst (chat_run evs ?st))) = requests (snd (fst st)) @ (n1 @ n2)
      \<and> list_all (carries (sessionId (fst (fst st)))) (n1 @ n2)"
    by simp
  then have "\<exists>new. requests (snd (fst (chat_run evs ?st))) = requests (snd (fst st)) @ new
      \<and> list_all (carries (sessionId (fst (fst st)))) new"
    by blast
  with k2 show ?case by simp
qed

lemma conversation_chat_run:
  "chat_run (concat (map (\<lambda>ev. [Start (fst ev) (snd ev), Settle 0]) evs)) (p, []) =
     (conversation evs p, [])"
proof (induction evs arbitrary: p)
  case Nil
  show ?case by simp
next
  case (Cons ev evs)
  have "chat_step (Settle 0) (chat_step (Start (fst ev) (snd ev)) (p, [])) =
          (sendMessage (snd ev) ((fst p)\<lparr>inputText := fst ev\<rparr>, snd p), [])"
    by (simp add: sendMessage_def)
  with Cons.IH show ?case by simp
qed

text \<open>
  C5. When the trimmed input is not empty, the state in which \<open>sendMessage\<close> awaits the
  reply has, at the end of the message list, an entry that is not a bot entry and whose
  text is the trimmed input, and the request is sent. That state is the same whatever the
  reply will be. The whole run is that state followed by the rest of the function, and it
  ends with the user message followed by the bot message made from the response when the
  call resolved, and by the synthetic error message when it was rejected.
\<close>

theorem sendMessage_optimistic:
  assumes "trim (inputText c) \<noteq> []"
  shows "messages (fst (sendMessage_pending io c s)) =
           messages c @
             [\<lparr>m_id = toString (now_sent io), m_text = trim (inputText c), m_isBot = False,
               m_timestamp = date_sent io, m_language = None, m_mode = None,
               m_confidence = None, m_isError = False\<rparr>]
       \<and> sendMessage_pending (io\<lparr>reply := r\<rparr>) c s = sendMessage_pending io c s
       \<and> requests (snd (sendMessage_pending io c s)) =
           requests s @
             [(POST_chat_send (trim (inputText c)) (language c)
                 (if truthy (sessionId c) then sessionId c else None),
               authorization s)]
       \<and> sendMessage_settle io c (sendMessage_pending io c s) = sendMessage io (c, s)
       \<and> messages (fst (sendMessage io (c, s))) =
           messages c @
             [\<lparr>m_id = toString (now_sent io), m_text = trim (inputText c), m_isBot = False,
               m_timestamp = date_sent io, m_language = None, m_mode = None,
               m_confidence = None, m_isError = False\<rparr>,
              case reply io of
                Resolved d \<Rightarrow>
                  \<lparr>m_id = toString (now_settled io + 1), m_text = d_response d, m_isBot = True,
                   m_timestamp = date_settled io, m_language = d_language d, m_mode = d_mode d,
                   m_confidence = d_confidence d, m_isError = False\<rparr>
              | Rejected e \<Rightarrow>
                  \<lparr>m_id = toString (now_settled io + 1),
                   m_text = ''Sorry, I encountered an error. Please try again.'', m_isBot = True,
                   m_timestamp = date_settled io, m_language = None, m_mode = None,
                   m_confidence = None, m_isError = True\<rparr>]"
  using assms
  by (simp add: sendMessage_def sendMessage_pending_def sendMessage_settle_def api_request_def
      userMessage_def botMessage_def errorMessage_def apiService_sendMessage_payload_def
      split: reply.splits)

text \<open>
  The first message of a chat, \<open>hi\<close> between two spaces, sent at 1000 with a call that
  is rejected at 1200.
\<close>

theorem sendMessage_optimistic_witness:
  "trim (inputText ((ChatScreen_mount 0)\<lparr>inputText := '' hi ''\<rparr>)) \<noteq> []
   \<and> messages (fst (sendMessage_pending (example_io 1000 (Rejected (HttpError None None)) 1200)
       ((ChatScreen_mount 0)\<lparr>inputText := '' hi ''\<rparr>) (AuthProvider_mount True Map.empty Map.empty)))
     = [welcomeMessage 0,
        \<lparr>m_id = ''1000'', m_text = ''hi'', m_isBot = False, m_timestamp = 1000,
         m_language = None, m_mode = None, m_confidence = None, m_isError = False\<rparr>]
   \<and> sendMessage_pending (example_io 1000 (Resolved (example_data ''Hello'' (Some ''s1''))) 1200)
       ((ChatScreen_mount 0)\<lparr>inputText := '' hi ''\<rparr>) (AuthProvider_mount True Map.empty Map.empty)
     = sendMessage_pending (example_io 1000 (Rejected (HttpError None None)) 1200)
       ((ChatScreen_mount 0)\<lparr>inputText := '' hi ''\<rparr>) (AuthProvider_mount True Map.empty Map.empty)
   \<and> messages (fst (sendMessage (example_io 1000 (Rejected (HttpError None None)) 1200)
       ((ChatScreen_mount 0)\<lparr>inputText := '' hi ''\<rparr>, AuthProvider_mount True Map.empty Map.empty)))
     = [welcomeMessage 0,
        \<lparr>m_id = ''1000'', m_text = ''hi'', m_isBot = False, m_timestamp = 1000,
         m_language = None, m_mode = None, m_confidence = None, m_isError = False\<rparr>,
        \<lparr>m_id = ''1201'', m_text = ''Sorry, I encountered an error. Please try again.'',
         m_isBot = True, m_timestamp = 1200, m_language = None, m_mode = None,
         m_confidence = None, m_isError = True\<rparr>]"
proof -
  have ne: "trim (inputText ((ChatScreen_mount 0)\<lparr>inputText := '' hi ''\<rparr>)) \<noteq> []"
    by (simp add: trim_example)
  have ex: "(example_io 1000 (Rejected (HttpError None None)) 1200)
      \<lparr>reply := Resolved (example_data ''Hello'' (Some ''s1''))\<rparr>
      = example_io 1000 (Resolved (example_data ''Hello'' (Some ''s1''))) 1200"
    by (simp add: example_io_def)
  from sendMessage_optimistic [OF ne, of "example_io 1000 (Rejected (HttpError None None)) 1200"
      "AuthProvider_mount True Map.empty Map.empty"
      "Resolved (example_data ''Hello'' (Some ''s1''))"] ne
  show ?thesis
    by (simp add: ex) (simp add: ChatScreen_mount_def example_io_def trim_example toString_examples)
qed

text \<open>
  C4, as amended. The session id of a chat starts \<open>null\<close>. A send-message call carries
  the session id that the chat holds when the send starts, and omits it when that is
  \<open>null\<close> or empty; starting a send does not change the id. When a reply arrives while the
  id is \<open>null\<close> or empty, a resolved call of a send that started without an id sets it to
  the \<open>session_id\<close> of the response, and any other reply leaves it. Once the id is a
  non-empty string and no send that started without an id is in flight, no sequence of
  sends and replies, overlapping or not, changes it, and every send-message request of the
  sequence carries it.
\<close>

theorem sessionId_continuity:
  "sessionId (ChatScreen_mount date) = None
   \<and> (trim txt \<noteq> [] \<longrightarrow>
        sessionId (fst (fst (chat_step (Start txt io) ((c, s), ps)))) = sessionId c
        \<and> requests (snd (fst (chat_step (Start txt io) ((c, s), ps)))) =
            requests s @
              [(POST_chat_send (trim txt) (language c)
                  (if truthy (sessionId c) then sessionId c else None),
                authorization s)])
   \<and> (i < length ps \<and> \<not> truthy (sessionId c) \<longrightarrow>
        sessionId (fst (fst (chat_step (Settle i) ((c, s), ps)))) =
          (case reply (snd (ps ! i)) of
             Resolved d \<Rightarrow> if truthy (sessionId (fst (ps ! i))) then sessionId c else d_session_id d
           | Rejected e \<Rightarrow> sessionId c))
   \<and> (truthy (sessionId c) \<and> list_all (\<lambda>q. truthy (sessionId (fst q))) ps \<longrightarrow>
        sessionId (fst (fst (chat_run evs ((c, s), ps)))) = sessionId c
        \<and> (\<exists>new. requests (snd (fst (chat_run evs ((c, s), ps)))) = requests s @ new
                  \<and> list_all (\<lambda>rq. \<exists>msg lang. fst rq = POST_chat_send msg lang (sessionId c)) new))"
proof -
  have "sessionId (ChatScreen_mount date) = None"
    by (simp add: ChatScreen_mount_def)
  moreover have "sessionId (fst (fst (chat_step (Start txt io) ((c, s), ps)))) = sessionId c
        \<and> requests (snd (fst (chat_step (Start txt io) ((c, s), ps)))) =
            requests s @
              [(POST_chat_send (trim txt) (language c)
                  (if truthy (sessionId c) then sessionId c else None),
                authorization s)]"
    if "trim txt \<noteq> []"
    using that by (simp add: pending_frame apiService_sendMessage_payload_def)
  moreover have "sessionId (fst (fst (chat_step (Settle i) ((c, s), ps)))) =
          (case reply (snd (ps ! i)) of
             Resolved d \<Rightarrow> if truthy (sessionId (fst (ps ! i))) then sessionId c else d_session_id d
           | Rejected e \<Rightarrow> sessionId c)"
    if "i < length ps"
    using that by (simp add: settle_frame)
  moreover have "sessionId (fst (fst (chat_run evs ((c, s), ps)))) = sessionId c
        \<and> (\<exists>new. requests (snd (fst (chat_run evs ((c, s), ps)))) = requests s @ new
                  \<and> list_all (\<lambda>rq. \<exists>msg lang. fst rq = POST_chat_send msg lang (sessionId c)) new)"
    if "truthy (sessionId c)" "list_all (\<lambda>q. truthy (sessionId (fst q))) ps"
  proof -
    from that(2) have "list_all started_with_id ps"
      by (simp add: list_all_iff started_with_id_def)
    from chat_run_active [of "((c, s), ps)" evs] that(1) this
    show ?thesis by (simp add: carries_iff [abs_def])
  qed
  ultimately show ?thesis by blast
qed

text \<open>
  The first send of a chat and its reply with the session id \<open>s1\<close>; then, from the state
  with that id, two overlapping sends, one answered with another id and one rejected.
\<close>

theorem sessionId_continuity_witness:
  "trim ''hi'' \<noteq> [] \<and> \<not> truthy (sessionId (ChatScreen_mount 0))
   \<and> requests (snd (fst (chat_step
        (Start ''hi'' (example_io 1000 (Resolved (example_data ''Hello'' (Some ''s1''))) 1200))
        ((ChatScreen_mount 0, AuthProvider_mount True Map.empty Map.empty), []))))
      = [(POST_chat_send ''hi'' ''english'' None, None)]
   \<and> sessionId (fst (fst (chat_step (Settle 0)
        ((ChatScreen_mount 0, AuthProvider_mount True Map.empty Map.empty),
         [(ChatScreen_mount 0, example_io 1000 (Resolved (example_data ''Hello'' (Some ''s1''))) 1200)]))))
      = Some ''s1''
   \<and> truthy (sessionId ((ChatScreen_mount 0)\<lparr>sessionId := Some ''s1''\<rparr>))
   \<and> sessionId (fst (fst (chat_run
        [Start ''thanks'' (example_io 2000 (Resolved (example_data ''Welcome'' (Some ''s2''))) 2200),
         Start ''bye'' (example_io 2100 (Rejected (HttpError None None)) 2300),
         Settle 1, Settle 0]
        (((ChatScreen_mount 0)\<lparr>sessionId := Some ''s1''\<rparr>, AuthProvider_mount True Map.empty Map.empty),
         []))))
      = Some ''s1''
   \<and> map fst (requests (snd (fst (chat_run
        [Start ''thanks'' (example_io 2000 (Resolved (example_data ''Welcome'' (Some ''s2''))) 2200),
         Start ''bye'' (example_io 2100 (Rejected (HttpError None None)) 2300),
         Settle 1, Settle 0]
        (((ChatScreen_mount 0)\<lparr>sessionId := Some ''s1''\<rparr>, AuthProvider_mount True Map.empty Map.empty),
         [])))))
      = [POST_chat_send ''thanks'' ''english'' (Some ''s1''),
         POST_chat_send ''bye'' ''english'' (Some ''s1'')]"
  using sessionId_continuity [of 0 "''hi''"
      "example_io 1000 (Resolved (example_data ''Hello'' (Some ''s1''))) 1200"
      "ChatScreen_mount 0" "AuthProvider_mount True Map.empty Map.empty"
      "[(ChatScreen_mount 0, example_io 1000 (Resolved (example_data ''Hello'' (Some ''s1''))) 1200)]"
      0 "[]"]
    sessionId_continuity [of 0 "''hi''"
      "example_io 1000 (Resolved (example_data ''Hello'' (Some ''s1''))) 1200"
      "(ChatScreen_mount 0)\<lparr>sessionId := Some ''s1''\<rparr>" "AuthProvider_mount True Map.empty Map.empty"
      "[]" 0
      "[Start ''thanks'' (example_io 2000 (Resolved (example_data ''Welcome'' (Some ''s2''))) 2200),
        Start ''bye'' (example_io 2100 (Rejected (HttpError None None)) 2300),
        Settle 1, Settle 0]"]
  by (simp add: ChatScreen_mount_def example_io_def example_data_def truthy_def trim_def js_ws_def
      authorization_def AuthProvider_mount_def sendMessage_pending_def sendMessage_settle_def
      api_request_def api_response_def apiService_sendMessage_payload_def)

text \<open>
  A chat whose first response has the empty string as session id, and one whose first
  response has none: the second send omits the session id, and the second response sets
  the session id again. And two sends of which the second starts before the first reply:
  the first reply sets the id \<open>s1\<close> and the second replaces it by \<open>s2\<close>.
\<close>

theorem sessionId_reset_counterexample:
  "sessionId (fst (conversation
       [(''hi'', example_io 1000 (Resolved (example_data ''Hello'' (Some ''''))) 1200)]
       (ChatScreen_mount 0, AuthProvider_mount True Map.empty Map.empty))) = Some ''''
   \<and> sessionId (fst (conversation
       [(''hi'', example_io 1000 (Resolved (example_data ''Hello'' (Some ''''))) 1200),
        (''thanks'', example_io 2000 (Resolved (example_data ''Welcome'' (Some ''s2''))) 2200)]
       (ChatScreen_mount 0, AuthProvider_mount True Map.empty Map.empty))) = Some ''s2''
   \<and> map fst (requests (snd (conversation
       [(''hi'', example_io 1000 (Resolved (example_data ''Hello'' (Some ''''))) 1200),
        (''thanks'', example_io 2000 (Resolved (example_data ''Welcome'' (Some ''s2''))) 2200)]
       (ChatScreen_mount 0, AuthProvider_mount True Map.empty Map.empty))))
      = [POST_chat_send ''hi'' ''english'' None, POST_chat_send ''thanks'' ''english'' None]
   \<and> sessionId (fst (conversation
       [(''hi'', example_io 1000 (Resolved (example_data ''Hello'' None)) 1200)]
       (ChatScreen_mount 0, AuthProvider_mount True Map.empty Map.empty))) = None
   \<and> sessionId (fst (conversation
       [(''hi'', example_io 1000 (Resolved (example_data ''Hello'' None)) 1200),
        (''thanks'', example_io 2000 (Resolved (example_data ''Welcome'' (Some ''s2''))) 2200)]
       (ChatScreen_mount 0, AuthProvider_mount True Map.empty Map.empty))) = Some ''s2''
   \<and> sessionId (fst (fst (chat_run
       [Start ''hi'' (example_io 1000 (Resolved (example_data ''Hello'' (Some ''s1''))) 1200),
        Start ''again'' (example_io 1100 (Resolved (example_data ''Welcome'' (Some ''s2''))) 1300),
        Settle 0]
       ((ChatScreen_mount 0, AuthProvider_mount True Map.empty Map.empty), [])))) = Some ''s1''
   \<and> sessionId (fst (fst (chat_run
       [Start ''hi'' (example_io 1000 (Resolved (example_data ''Hello'' (Some ''s1''))) 1200),
        Start ''again'' (example_io 1100 (Resolved (example_data ''Welcome'' (Some ''s2''))) 1300),
        Settle 0, Settle 0]
       ((ChatScreen_mount 0, AuthProvider_mount True Map.empty Map.empty), [])))) = Some ''s2''"
  by code_simp

text \<open>
  C9. A chat of two sends: the first is made at 1000 and answered at 1250, the second is
  made at 1251. The message list then holds the welcome entry and four appended messages,
  and the bot message of the first send and the user message of the second have the same
  id \<open>1251\<close>.
\<close>

theorem message_id_collision:
  "map m_id (messages (fst (conversation
       [(''hi'', example_io 1000 (Resolved (example_data ''Hello'' (Some ''s1''))) 1250),
        (''thanks'', example_io 1251 (Resolved (example_data ''Welcome'' (Some ''s1''))) 1500)]
       (ChatScreen_mount 0, AuthProvider_mount True Map.empty Map.empty))))
     = [''welcome'', ''1000'', ''1251'', ''1251'', ''1501'']
   \<and> \<not> distinct (map m_id (messages (fst (conversation
       [(''hi'', example_io 1000 (Resolved (example_data ''Hello'' (Some ''s1''))) 1250),
        (''thanks'', example_io 1251 (Resolved (example_data ''Welcome'' (Some ''s1''))) 1500)]
       (ChatScreen_mount 0, AuthProvider_mount True Map.empty Map.empty)))))"
  by code_simp

end
